theory Spec2Isabelle
  imports Main "HOL-Library.Char_ord"
begin

section \<open>Characters and strings\<close>

text \<open>
  A Python \<open>str\<close> is a sequence of code points. This development covers source texts
  whose code points lie in U+0000 .. U+00FF: a \<^typ>\<open>char\<close> stands for the code point of
  the same number, and a \<^typ>\<open>string\<close> for the text. The character classes below are
  those of Python's \<open>re\<close> module for \<open>str\<close> patterns on that range. Code points above
  U+00FF are outside the model.
\<close>

abbreviation NL :: char where
  "NL \<equiv> CHR 0x0A"

abbreviation BACKSLASH :: char where
  "BACKSLASH \<equiv> CHR 0x5C"

text \<open>\<open>\s\<close>: the code points for which \<open>str.isspace\<close> holds.\<close>

definition is_space :: "char \<Rightarrow> bool" where
  "is_space c \<longleftrightarrow>
     (CHR 0x09 \<le> c \<and> c \<le> CHR 0x0D) \<or> (CHR 0x1C \<le> c \<and> c \<le> CHR 0x20) \<or>
     c = CHR 0x85 \<or> c = CHR 0xA0"

text \<open>\<open>\w\<close>: the underscore and the code points for which \<open>str.isalnum\<close> holds.\<close>

definition is_word :: "char \<Rightarrow> bool" where
  "is_word c \<longleftrightarrow>
     (CHR ''0'' \<le> c \<and> c \<le> CHR ''9'') \<or> (CHR ''A'' \<le> c \<and> c \<le> CHR ''Z'') \<or>
     c = CHR ''_'' \<or> (CHR ''a'' \<le> c \<and> c \<le> CHR ''z'') \<or>
     c = CHR 0xAA \<or> c = CHR 0xB2 \<or> c = CHR 0xB3 \<or> c = CHR 0xB5 \<or>
     c = CHR 0xB9 \<or> c = CHR 0xBA \<or> (CHR 0xBC \<le> c \<and> c \<le> CHR 0xBE) \<or>
     (CHR 0xC0 \<le> c \<and> c \<le> CHR 0xD6) \<or> (CHR 0xD8 \<le> c \<and> c \<le> CHR 0xF6) \<or>
     CHR 0xF8 \<le> c"

text \<open>\<open>[\s\S]\<close> and \<open>[^.\n]\<close>, the two bracketed classes of the patterns.\<close>

definition space_or_nonspace :: "char \<Rightarrow> bool" where
  "space_or_nonspace c \<longleftrightarrow> is_space c \<or> \<not> is_space c"

definition not_dot_nl :: "char \<Rightarrow> bool" where
  "not_dot_nl c \<longleftrightarrow> c \<noteq> CHR ''.'' \<and> c \<noteq> NL"

text \<open>
  The letters of this range that have two cases, as pairs of the upper-case and the
  lower-case code point: A-Z, and U+00C0 .. U+00DE without U+00D7 (32 below their lower
  case).
\<close>

definition case_pairs :: "(char \<times> char) list" where
  "case_pairs =
     [(CHR ''A'', CHR ''a''), (CHR ''B'', CHR ''b''), (CHR ''C'', CHR ''c''), (CHR ''D'', CHR ''d''),
      (CHR ''E'', CHR ''e''), (CHR ''F'', CHR ''f''), (CHR ''G'', CHR ''g''), (CHR ''H'', CHR ''h''),
      (CHR ''I'', CHR ''i''), (CHR ''J'', CHR ''j''), (CHR ''K'', CHR ''k''), (CHR ''L'', CHR ''l''),
      (CHR ''M'', CHR ''m''), (CHR ''N'', CHR ''n''), (CHR ''O'', CHR ''o''), (CHR ''P'', CHR ''p''),
      (CHR ''Q'', CHR ''q''), (CHR ''R'', CHR ''r''), (CHR ''S'', CHR ''s''), (CHR ''T'', CHR ''t''),
      (CHR ''U'', CHR ''u''), (CHR ''V'', CHR ''v''), (CHR ''W'', CHR ''w''), (CHR ''X'', CHR ''x''),
      (CHR ''Y'', CHR ''y''), (CHR ''Z'', CHR ''z''), (CHR 0xC0, CHR 0xE0), (CHR 0xC1, CHR 0xE1),
      (CHR 0xC2, CHR 0xE2), (CHR 0xC3, CHR 0xE3), (CHR 0xC4, CHR 0xE4), (CHR 0xC5, CHR 0xE5),
      (CHR 0xC6, CHR 0xE6), (CHR 0xC7, CHR 0xE7), (CHR 0xC8, CHR 0xE8), (CHR 0xC9, CHR 0xE9),
      (CHR 0xCA, CHR 0xEA), (CHR 0xCB, CHR 0xEB), (CHR 0xCC, CHR 0xEC), (CHR 0xCD, CHR 0xED),
      (CHR 0xCE, CHR 0xEE), (CHR 0xCF, CHR 0xEF), (CHR 0xD0, CHR 0xF0), (CHR 0xD1, CHR 0xF1),
      (CHR 0xD2, CHR 0xF2), (CHR 0xD3, CHR 0xF3), (CHR 0xD4, CHR 0xF4), (CHR 0xD5, CHR 0xF5),
      (CHR 0xD6, CHR 0xF6), (CHR 0xD8, CHR 0xF8), (CHR 0xD9, CHR 0xF9), (CHR 0xDA, CHR 0xFA),
      (CHR 0xDB, CHR 0xFB), (CHR 0xDC, CHR 0xFC), (CHR 0xDD, CHR 0xFD), (CHR 0xDE, CHR 0xFE)]"

text \<open>
  Lower case of one code point (\<open>str.lower\<close>, and the case folding of the \<open>re\<close> module
  under \<open>IGNORECASE\<close>).
\<close>

definition lower_char :: "char \<Rightarrow> char" where
  "lower_char c = (case map_of case_pairs c of None \<Rightarrow> c | Some l \<Rightarrow> l)"

text \<open>
  \<open>str.upper\<close> of one code point. U+00DF becomes \<open>SS\<close>. The upper case of U+00B5 and of
  U+00FF lies above U+00FF; they are left as they are here, and no text matched by a named
  group of the two patterns holds them (lemmas \<open>SQL_group_text\<close> and
  \<open>DECL_group_text\<close> below).
\<close>

definition upper_char :: "char \<Rightarrow> string" where
  "upper_char c =
     (if c = CHR 0xDF then ''SS''
      else case map_of (map (\<lambda>(u, l). (l, u)) case_pairs) c of None \<Rightarrow> [c] | Some u \<Rightarrow> [u])"

definition py_upper :: "string \<Rightarrow> string" where
  "py_upper s = concat (map upper_char s)"

text \<open>A literal of a pattern compiled with \<open>(?i)\<close> against one character of the text.\<close>

definition ci_eq :: "char \<Rightarrow> char \<Rightarrow> bool" where
  "ci_eq c x \<longleftrightarrow> lower_char x = lower_char c"

text \<open>\<open>s.count("\n")\<close>.\<close>

definition count_nl :: "string \<Rightarrow> nat" where
  "count_nl s = count_list s NL"

text \<open>\<open>s.replace("\n", new)\<close>: every newline of \<open>s\<close>, from the left, gives way to \<open>new\<close>.\<close>

fun replace_nl :: "string \<Rightarrow> string \<Rightarrow> string" where
  "replace_nl new [] = []"
| "replace_nl new (c # cs) = (if c = NL then new @ replace_nl new cs else c # replace_nl new cs)"

text \<open>
  \<open>text.find("\n", start)\<close> and \<open>text.rfind("\n", 0, end)\<close>: the lowest index from \<open>start\<close>
  on, and the highest index below \<open>end\<close>, that holds a newline; \<open>-1\<close> when there is none.
\<close>

fun index_nl :: "string \<Rightarrow> nat option" where
  "index_nl [] = None"
| "index_nl (c # cs) = (if c = NL then Some 0 else map_option Suc (index_nl cs))"

definition find_nl :: "string \<Rightarrow> nat \<Rightarrow> int" where
  "find_nl text start =
     (case index_nl (drop start text) of None \<Rightarrow> - 1 | Some i \<Rightarrow> int (start + i))"

definition rfind_nl :: "string \<Rightarrow> nat \<Rightarrow> int" where
  "rfind_nl text end =
     (case index_nl (rev (take end text)) of
        None \<Rightarrow> - 1
      | Some i \<Rightarrow> int (length (take end text) - 1 - i))"

text \<open>\<open>text[i:j]\<close> for indices that are not negative.\<close>

definition slice :: "string \<Rightarrow> nat \<Rightarrow> nat \<Rightarrow> string" where
  "slice text i j = take (j - i) (drop i text)"


section \<open>Data model\<close>

record finding =
  prog_name :: "string option"
  incl_name :: "string option"
  types :: "string option"
  blockname :: "string option"
  starting_line :: "int option"
  ending_line :: "int option"
  issues_type :: "string option"
  severity :: "string option"
  message :: "string option"
  suggestion :: "string option"
  snippet :: "string option"

record unit_rec =
  pgm_name :: string
  inc_name :: string
  type :: string
  name :: "string option"
  start_line :: "int option"
  end_line :: "int option"
  code :: "string option"
  findings :: "finding list option"

text \<open>The two mappings of SAP Note 2220005, and \<open>d.get(key, "")\<close>.\<close>

definition OBSOLETE_TABLE_MAP :: "string \<rightharpoonup> string" where
  "OBSOLETE_TABLE_MAP = map_of [(''KONV'', ''PRCD_ELEMENTS'')]"

definition OBSOLETE_TYPE_MAP :: "string \<rightharpoonup> string" where
  "OBSOLETE_TYPE_MAP = map_of
     [(''KONV'', ''PRCD_ELEMENTS''),
      (''DZAEHK'', ''VFPRC_COND_COUNT''),
      (''DZAEKO'', ''VFPRC_COND_COUNT_HEAD'')]"

definition get_or_empty :: "(string \<rightharpoonup> string) \<Rightarrow> string \<Rightarrow> string" where
  "get_or_empty d key = (case d key of None \<Rightarrow> [] | Some v \<Rightarrow> v)"


section \<open>The backtracking matcher of the \<open>re\<close> module\<close>

text \<open>
  The matcher works on the whole text and a position in it. A state is
  \<open>(b, s, g)\<close>: \<open>b\<close> is the text before the position, reversed (its head is the
  character just before the position), \<open>s\<close> is the text from the position on, and \<open>g\<close> is
  the text of the named group, once it has matched. A pattern takes the continuation that
  matches the rest of the pattern; it tries its own ways of matching in the order of the
  \<open>re\<close> module and returns the first result of the continuation, which is how a
  backtracking matcher finds its match. Sequencing is function composition.
\<close>

type_synonym mstate = "string \<times> string \<times> string option"
type_synonym 'r cont = "mstate \<Rightarrow> 'r option"
type_synonym 'r pat = "'r cont \<Rightarrow> 'r cont"

fun lit :: "char \<Rightarrow> 'r pat" where
  "lit c k (b, [], g) = None"
| "lit c k (b, x # xs, g) = (if ci_eq c x then k (x # b, xs, g) else None)"

fun lits :: "string \<Rightarrow> 'r pat" where
  "lits [] k = k"
| "lits (c # cs) k = lit c (lits cs k)"

text \<open>\<open>A|B\<close>: the first alternative, with all that follows, then the second.\<close>

definition alt :: "'r pat \<Rightarrow> 'r pat \<Rightarrow> 'r pat" where
  "alt p q k st = (case p k st of Some r \<Rightarrow> Some r | None \<Rightarrow> q k st)"

text \<open>\<open>(?:A)?\<close>, greedy: with the group first, then without it.\<close>

definition opt :: "'r pat \<Rightarrow> 'r pat" where
  "opt p k st = (case p k st of Some r \<Rightarrow> Some r | None \<Rightarrow> k st)"

definition dec :: "nat option \<Rightarrow> nat option" where
  "dec mx = map_option (\<lambda>n. n - 1) mx"

text \<open>
  \<open>C{mn,mx}?\<close> for a character class \<open>C\<close> (\<open>mx = None\<close>: no upper bound), lazy: once
  \<open>mn\<close> characters are taken, the rest of the pattern is tried before one more character.
\<close>

fun rep_lazy :: "(char \<Rightarrow> bool) \<Rightarrow> nat \<Rightarrow> nat option \<Rightarrow> 'r pat" where
  "rep_lazy C mn mx k (b, [], g) = (if mn = 0 then k (b, [], g) else None)"
| "rep_lazy C mn mx k (b, x # xs, g) =
     (if mn = 0 then
        (case k (b, x # xs, g) of
           Some r \<Rightarrow> Some r
         | None \<Rightarrow>
             if mx \<noteq> Some 0 \<and> C x then rep_lazy C 0 (dec mx) k (x # b, xs, g) else None)
      else if mx \<noteq> Some 0 \<and> C x then rep_lazy C (mn - 1) (dec mx) k (x # b, xs, g)
      else None)"

text \<open>
  \<open>C{mn,mx}\<close>, greedy: one more character is tried before the rest of the pattern.
\<close>

fun rep_greedy :: "(char \<Rightarrow> bool) \<Rightarrow> nat \<Rightarrow> nat option \<Rightarrow> 'r pat" where
  "rep_greedy C mn mx k (b, [], g) = (if mn = 0 then k (b, [], g) else None)"
| "rep_greedy C mn mx k (b, x # xs, g) =
     (if mx \<noteq> Some 0 \<and> C x then
        (case rep_greedy C (mn - 1) (dec mx) k (x # b, xs, g) of
           Some r \<Rightarrow> Some r
         | None \<Rightarrow> if mn = 0 then k (b, x # xs, g) else None)
      else if mn = 0 then k (b, x # xs, g) else None)"

text \<open>
  \<open>\b\<close>: exactly one of the characters before and after the position is a word
  character; the two ends of the text count as no word character.
\<close>

fun prev_is_word :: "string \<Rightarrow> bool" where
  "prev_is_word [] = False"
| "prev_is_word (c # b) = is_word c"

fun next_is_word :: "string \<Rightarrow> bool" where
  "next_is_word [] = False"
| "next_is_word (c # s) = is_word c"

fun word_boundary :: "'r pat" where
  "word_boundary k (b, s, g) = (if prev_is_word b \<noteq> next_is_word s then k (b, s, g) else None)"

text \<open>\<open>(?!\w)\<close>.\<close>

fun not_before_word :: "'r pat" where
  "not_before_word k (b, s, g) = (if next_is_word s then None else k (b, s, g))"

text \<open>\<open>(?P<name>A)\<close>: the text between the positions before and after \<open>A\<close>.\<close>

fun named_group :: "'r pat \<Rightarrow> 'r pat" where
  "named_group p k (b, s, g) =
     p (\<lambda>(b', s', g'). k (b', s', Some (take (length b' - length b) s))) (b, s, g)"

text \<open>
  \<open>SQL_KONV_RE\<close>. The flags \<open>m\<close> and \<open>x\<close> change nothing here: the pattern has no
  \<open>^\<close> or \<open>$\<close>, and its blanks and comments are dropped. The first, unnamed group is never
  read and is not recorded.
\<close>

definition SQL_KONV_RE :: "'r pat" where
  "SQL_KONV_RE =
     alt (lits ''SELECT'' \<circ> rep_lazy space_or_nonspace 1 None \<circ> lits ''FROM'')
    (alt (lits ''INSERT'' \<circ> rep_greedy is_space 1 None \<circ> lits ''INTO'')
    (alt (lits ''UPDATE'')
         (lits ''DELETE'' \<circ> rep_greedy is_space 1 None \<circ> lits ''FROM'')))
     \<circ> rep_lazy space_or_nonspace 0 (Some 1000)
     \<circ> word_boundary \<circ> named_group (lits ''KONV'') \<circ> word_boundary
     \<circ> not_before_word"

text \<open>\<open>DECL_KONV_RE\<close>; the named group recorded is \<open>dtype\<close>, the one the scan reads.\<close>

definition DECL_KONV_RE :: "'r pat" where
  "DECL_KONV_RE =
     word_boundary
     \<circ> alt (lits ''DATA'') (alt (lits ''TYPES'') (alt (lits ''FIELD-SYMBOLS'') (lits ''CONSTANTS'')))
     \<circ> rep_lazy not_dot_nl 0 None
     \<circ> word_boundary \<circ> alt (lits ''TYPE'') (lits ''LIKE'') \<circ> word_boundary
     \<circ> rep_greedy is_space 0 None
     \<circ> opt (alt (lits ''TABLE'' \<circ> rep_greedy is_space 1 None \<circ> lits ''OF''
                   \<circ> rep_greedy is_space 1 None)
                 (rep_greedy is_space 1 None))
     \<circ> named_group (alt (lits ''KONV'') (alt (lits ''DZAEHK'') (lits ''DZAEKO'')))
     \<circ> word_boundary"

text \<open>
  A match object: \<open>m.span()\<close> and the text of the named group (\<open>None\<close> for a group that
  took no part in the match).
\<close>

record re_match =
  m_start :: nat
  m_end :: nat
  m_group :: "string option"

text \<open>
  \<open>pattern.search\<close> from a position: the match at the lowest start position from there on.
\<close>

fun search :: "mstate pat \<Rightarrow> string \<Rightarrow> string \<Rightarrow> (nat \<times> mstate) option" where
  "search re b [] = map_option (Pair (length b)) (re Some (b, [], None))"
| "search re b (x # xs) =
     (case re Some (b, x # xs, None) of
        Some st \<Rightarrow> Some (length b, st)
      | None \<Rightarrow> search re (x # b) xs)"

lemma search_start: "search re b s = Some (i, st) \<Longrightarrow> length b \<le> i"
proof (induction s arbitrary: b)
  case Nil
  then show ?case by auto
next
  case (Cons x xs)
  show ?case
  proof (cases "re Some (b, x # xs, None)")
    case None
    with Cons.prems have "search re (x # b) xs = Some (i, st)" by simp
    from Cons.IH [OF this] show ?thesis by simp
  next
    case (Some st')
    with Cons.prems show ?thesis by simp
  qed
qed

text \<open>
  \<open>pattern.finditer\<close>: the matches from left to right, each search starting where the
  match before it ended. After an empty match the search goes on one character further;
  neither pattern has an empty match (each match holds its keyword).
\<close>

function finditer :: "mstate pat \<Rightarrow> string \<Rightarrow> string \<Rightarrow> re_match list" where
  "finditer re b s =
     (case search re b s of
        None \<Rightarrow> []
      | Some (i, (b', s', g)) \<Rightarrow>
          \<lparr>m_start = i, m_end = length b', m_group = g\<rparr> #
          (let n = (if i < length b' then length b' else i + 1) - length b
           in if n \<le> length s then finditer re (rev (take n s) @ b) (drop n s) else []))"
  by pat_completeness auto
termination
  apply (relation "measure (\<lambda>(re, b, s). length s)")
   apply simp
  apply (auto dest!: search_start split: if_splits)
  done

declare finditer.simps [simp del]


section \<open>Helpers\<close>

definition get_line_snippet :: "string \<Rightarrow> nat \<Rightarrow> nat \<Rightarrow> string" where
  "get_line_snippet text start end =
     (let line_start = rfind_nl text start;
          line_start = (if line_start = - 1 then 0 else line_start + 1);
          line_end = find_nl text end;
          line_end = (if line_end = - 1 then int (length text) else line_end)
      in slice text (nat line_start) (nat line_end))"

text \<open>\<open>unit.start_line or 0\<close>.\<close>

definition or_zero :: "int option \<Rightarrow> int" where
  "or_zero x = (case x of None \<Rightarrow> 0 | Some n \<Rightarrow> if n = 0 then 0 else n)"

definition make_finding ::
  "unit_rec \<Rightarrow> string \<Rightarrow> nat \<Rightarrow> nat \<Rightarrow> string \<Rightarrow> string \<Rightarrow> string \<Rightarrow> finding" where
  "make_finding unit src match_start match_end issues_type' message' suggestion' =
     (let base_start = or_zero (start_line unit);
          line_in_block = int (count_nl (take match_start src)) + 1;
          snippet_line = get_line_snippet src match_start match_end;
          snippet_line_count = int (count_nl snippet_line) + 1;
          starting_line_abs = base_start + line_in_block;
          ending_line_abs = base_start + line_in_block + snippet_line_count
      in \<lparr>prog_name = Some (pgm_name unit),
          incl_name = Some (inc_name unit),
          types = Some (type unit),
          blockname = name unit,
          starting_line = Some starting_line_abs,
          ending_line = Some ending_line_abs,
          issues_type = Some issues_type',
          severity = Some ''error'',
          message = Some message',
          suggestion = Some suggestion',
          snippet = Some (replace_nl [BACKSLASH, CHR ''n''] snippet_line)\<rparr>)"


section \<open>Core scanning logic\<close>

text \<open>
  \<open>m.group(name)\<close> of a match. For a group that took no part in the match Python gives
  \<open>None\<close>, and \<open>.upper()\<close> on it would raise; in both patterns the named group is part of
  every match (lemmas \<open>SQL_group_text\<close> and \<open>DECL_group_text\<close>), so that case is
  given the empty text here and never arises.
\<close>

definition group_text :: "re_match \<Rightarrow> string" where
  "group_text m = (case m_group m of None \<Rightarrow> [] | Some t \<Rightarrow> t)"

definition table_finding :: "unit_rec \<Rightarrow> string \<Rightarrow> re_match \<Rightarrow> finding" where
  "table_finding unit src m =
     (let table = py_upper (group_text m);
          replacement = get_or_empty OBSOLETE_TABLE_MAP table;
          msg = table @ '' table is obsolete in S/4HANA (SAP Note 2220005), ''
                @ ''replaced by '' @ replacement @ ''.'';
          sug = ''Rewrite the statement using '' @ replacement @ '' and adjust related logic.''
      in make_finding unit src (m_start m) (m_end m) ''ObsoleteTableUsage'' msg sug)"

definition decl_finding :: "unit_rec \<Rightarrow> string \<Rightarrow> re_match \<Rightarrow> finding" where
  "decl_finding unit src m =
     (let dtype = py_upper (group_text m);
          replacement = get_or_empty OBSOLETE_TYPE_MAP dtype;
          msg = dtype @ '' type is obsolete (SAP Note 2220005), ''
                @ ''use '' @ replacement @ '' instead.'';
          sug = ''Change the declaration using '' @ replacement
                @ '' and adapt the logic accordingly.''
      in make_finding unit src (m_start m) (m_end m) ''ObsoleteTypeDeclaration'' msg sug)"

text \<open>\<open>unit.code or ""\<close>.\<close>

definition code_or_empty :: "unit_rec \<Rightarrow> string" where
  "code_or_empty unit = (case code unit of None \<Rightarrow> [] | Some c \<Rightarrow> if c = [] then [] else c)"

text \<open>The list \<open>findings\<close> after the two loops of \<open>analyze_unit\<close>.\<close>

definition collect_findings :: "unit_rec \<Rightarrow> finding list" where
  "collect_findings unit =
     (let src = code_or_empty unit
      in map (table_finding unit src) (finditer SQL_KONV_RE [] src)
         @ map (decl_finding unit src) (finditer DECL_KONV_RE [] src))"

text \<open>
  \<open>Unit(**unit.model_dump())\<close> builds a new object with the fields of \<open>unit\<close>; as a
  value it is \<open>unit\<close>. (The store of objects, with the new object at its own address,
  is modelled in \<open>analyze_unit_store\<close> below.)
\<close>

definition analyze_unit :: "unit_rec \<Rightarrow> unit_rec" where
  "analyze_unit unit =
     (let fs = collect_findings unit;
          out = unit
      in out\<lparr>findings := (if fs \<noteq> [] then Some fs else None)\<rparr>)"


section \<open>Endpoints\<close>

text \<open>\<open>if res.findings\<close>: neither \<open>None\<close> nor the empty list.\<close>

definition truthy :: "finding list option \<Rightarrow> bool" where
  "truthy fs = (case fs of None \<Rightarrow> False | Some l \<Rightarrow> l \<noteq> [])"

fun scan_kondition_obsolete_array :: "unit_rec list \<Rightarrow> unit_rec list" where
  "scan_kondition_obsolete_array [] = []"
| "scan_kondition_obsolete_array (u # units) =
     (let res = analyze_unit u
      in if truthy (findings res) then res # scan_kondition_obsolete_array units
         else scan_kondition_obsolete_array units)"

definition scan_kondition_obsolete_single :: "unit_rec \<Rightarrow> unit_rec" where
  "scan_kondition_obsolete_single unit = analyze_unit unit"


section \<open>The scan on a store of objects\<close>

text \<open>
  Python passes \<open>Unit\<close> objects by reference. To state what \<open>analyze_unit\<close> does to
  its argument, the objects live in a store: a list of \<open>Unit\<close> values, an object's
  address being its index (an address held by the program is always below the length of
  the store). \<open>analyze_unit_store h unit\<close> follows the statements of the function: the
  findings are computed from the object at \<open>unit\<close>, which is only read;
  \<open>Unit(**unit.model_dump())\<close> allocates a new object with the same fields; the
  assignment \<open>out.findings = ...\<close> writes to the new object; its address is returned.
\<close>

type_synonym store = "unit_rec list"

definition alloc :: "store \<Rightarrow> unit_rec \<Rightarrow> nat \<times> store" where
  "alloc h v = (length h, h @ [v])"

definition analyze_unit_store :: "store \<Rightarrow> nat \<Rightarrow> nat \<times> store" where
  "analyze_unit_store h unit =
     (let fs = collect_findings (h ! unit);
          (out, h1) = alloc h (h ! unit);
          h2 = h1[out := (h1 ! out)\<lparr>findings := (if fs \<noteq> [] then Some fs else None)\<rparr>]
      in (out, h2))"

text \<open>Python's \<open>s.split("\n")\<close>: the lines of a text.\<close>

fun split_nl :: "string \<Rightarrow> string list" where
  "split_nl [] = [[]]"
| "split_nl (c # cs) =
     (if c = NL then [] # split_nl cs
      else (case split_nl cs of [] \<Rightarrow> [[c]] | l # ls \<Rightarrow> (c # l) # ls))"


section \<open>Example inputs\<close>

text \<open>A unit declared at lines 100 to 102 with an \<open>UPDATE\<close> of the table on its third line.\<close>

definition example_src :: string where
  "example_src = ''REPORT z.'' @ [NL, NL] @ ''UPDATE konv.''"

definition example_unit :: unit_rec where
  "example_unit =
     \<lparr>pgm_name = ''ZPROG'', inc_name = ''ZINC'', type = ''FORM'', name = Some ''F1'',
      start_line = Some 100, end_line = Some 102, code = Some example_src, findings = None\<rparr>"

text \<open>A unit with nothing to report, carrying a stale findings list.\<close>

definition clean_unit :: unit_rec where
  "clean_unit =
     \<lparr>pgm_name = ''ZPROG'', inc_name = ''ZTOP'', type = ''REPORT'', name = Some [],
      start_line = Some 1, end_line = Some 1, code = Some ''WRITE x.'', findings = Some []\<rparr>"


section \<open>Evaluation of the matcher on concrete texts\<close>

lemmas re_eval =
  SQL_KONV_RE_def DECL_KONV_RE_def alt_def opt_def dec_def space_or_nonspace_def
  not_dot_nl_def is_space_def is_word_def ci_eq_def lower_char_def case_pairs_def
  finditer.simps

lemmas scan_eval =
  collect_findings_def code_or_empty_def table_finding_def decl_finding_def make_finding_def
  group_text_def py_upper_def upper_char_def get_or_empty_def OBSOLETE_TABLE_MAP_def
  OBSOLETE_TYPE_MAP_def or_zero_def count_nl_def get_line_snippet_def rfind_nl_def
  find_nl_def slice_def

lemma example_sql_matches:
  "finditer SQL_KONV_RE [] example_src = [\<lparr>m_start = 11, m_end = 22, m_group = Some ''konv''\<rparr>]"
  by (simp add: example_src_def re_eval)

lemma example_decl_matches: "finditer DECL_KONV_RE [] example_src = []"
  by (simp add: example_src_def re_eval)

lemma clean_sql_matches: "finditer SQL_KONV_RE [] ''WRITE x.'' = []"
  by (simp add: re_eval)

lemma clean_decl_matches: "finditer DECL_KONV_RE [] ''WRITE x.'' = []"
  by (simp add: re_eval)

lemma example_findings:
  "collect_findings example_unit =
     [\<lparr>prog_name = Some ''ZPROG'', incl_name = Some ''ZINC'', types = Some ''FORM'',
       blockname = Some ''F1'', starting_line = Some 103, ending_line = Some 104,
       issues_type = Some ''ObsoleteTableUsage'', severity = Some ''error'',
       message = Some ''KONV table is obsolete in S/4HANA (SAP Note 2220005), replaced by PRCD_ELEMENTS.'',
       suggestion = Some ''Rewrite the statement using PRCD_ELEMENTS and adjust related logic.'',
       snippet = Some ''UPDATE konv.''\<rparr>]"
proof -
  have "code_or_empty example_unit = example_src"
    by (simp add: code_or_empty_def example_unit_def)
  then show ?thesis
    by (simp add: collect_findings_def example_sql_matches example_decl_matches)
       (simp add: scan_eval example_unit_def example_src_def case_pairs_def)
qed

lemma clean_findings: "collect_findings clean_unit = []"
  by (simp add: collect_findings_def code_or_empty_def clean_unit_def clean_sql_matches
      clean_decl_matches)


section \<open>The scan of one unit\<close>

lemma collect_findings_ignores_findings [simp]:
  "collect_findings (unit\<lparr>findings := fs\<rparr>) = collect_findings unit"
  by (simp add: collect_findings_def code_or_empty_def table_finding_def decl_finding_def
      make_finding_def Let_def)

lemma findings_analyze_unit:
  "findings (analyze_unit unit)
     = (if collect_findings unit = [] then None else Some (collect_findings unit))"
  by (simp add: analyze_unit_def)

text \<open>
  Claim C3. With a declared start line \<open>sl\<close>, the finding built for a match at offset
  \<open>p\<close> has as starting line \<open>sl\<close> plus the number of newlines before \<open>p\<close> plus 1, and as
  ending line that starting line plus the number of newlines in the extracted snippet plus
  1; the findings of the two loops are built this way from the span of their match. With
  \<open>sl = 100\<close> and two newlines before the match the starting line is 103, and for a
  snippet of one line the ending line is one past the starting line.
\<close>

theorem C3_line_numbers:
  assumes "start_line unit = Some sl"
  shows "starting_line (make_finding unit src p e ty msg sug)
           = Some (sl + int (count_nl (take p src)) + 1)
       \<and> ending_line (make_finding unit src p e ty msg sug)
           = Some (sl + int (count_nl (take p src)) + 1
                   + int (count_nl (get_line_snippet src p e)) + 1)
       \<and> starting_line (table_finding unit src m)
           = Some (sl + int (count_nl (take (m_start m) src)) + 1)
       \<and> ending_line (table_finding unit src m)
           = Some (sl + int (count_nl (take (m_start m) src)) + 1
                   + int (count_nl (get_line_snippet src (m_start m) (m_end m))) + 1)
       \<and> starting_line (decl_finding unit src m)
           = Some (sl + int (count_nl (take (m_start m) src)) + 1)
       \<and> ending_line (decl_finding unit src m)
           = Some (sl + int (count_nl (take (m_start m) src)) + 1
                   + int (count_nl (get_line_snippet src (m_start m) (m_end m))) + 1)
       \<and> (sl = 100 \<and> count_nl (take p src) = 2
            \<longrightarrow> starting_line (make_finding unit src p e ty msg sug) = Some 103)
       \<and> (count_nl (get_line_snippet src p e) = 0
            \<longrightarrow> ending_line (make_finding unit src p e ty msg sug)
                = Some (sl + int (count_nl (take p src)) + 1 + 1))"
  using assms
  by (simp add: make_finding_def table_finding_def decl_finding_def or_zero_def Let_def)

theorem C3_line_numbers_witness:
  "start_line example_unit = Some 100
   \<and> count_nl (take 11 example_src) = 2
   \<and> count_nl (get_line_snippet example_src 11 22) = 0
   \<and> starting_line (make_finding example_unit example_src 11 22 ''T'' ''M'' ''S'') = Some 103
   \<and> ending_line (make_finding example_unit example_src 11 22 ''T'' ''M'' ''S'') = Some 104"
proof -
  have 1: "start_line example_unit = Some 100" by (simp add: example_unit_def)
  have 2: "count_nl (take 11 example_src) = 2" by (simp add: example_src_def count_nl_def)
  have 3: "count_nl (get_line_snippet example_src 11 22) = 0"
    by (simp add: example_src_def count_nl_def get_line_snippet_def rfind_nl_def find_nl_def
        slice_def)
  from C3_line_numbers [OF 1, of example_src 11 22 "''T''" "''M''" "''S''"] 1 2 3 show ?thesis by simp
qed

text \<open>
  Claim C5. The response of the batch scan is the sub-sequence of the input units for
  which the scan collects at least one finding, in input order, each with its findings
  attached; the other units do not appear.
\<close>

theorem C5_batch_filter:
  "scan_kondition_obsolete_array units
     = map (\<lambda>u. u\<lparr>findings := Some (collect_findings u)\<rparr>)
         (filter (\<lambda>u. collect_findings u \<noteq> []) units)"
  by (induction units) (simp_all add: analyze_unit_def truthy_def Let_def)

theorem C5_batch_filter_witness:
  "scan_kondition_obsolete_array [clean_unit, example_unit, clean_unit]
     = [example_unit\<lparr>findings := Some (collect_findings example_unit)\<rparr>]"
  using C5_batch_filter [of "[clean_unit, example_unit, clean_unit]"]
  by (simp add: clean_findings example_findings)

text \<open>
  Claim C6. The single scan returns the unit; its findings field is \<open>None\<close> exactly when
  neither pattern has a match in the code, and it is never the empty list.
\<close>

theorem C6_absent_findings:
  "scan_kondition_obsolete_single unit
     = unit\<lparr>findings := (if collect_findings unit = [] then None
                            else Some (collect_findings unit))\<rparr>
   \<and> findings (scan_kondition_obsolete_single unit) \<noteq> Some []
   \<and> (findings (scan_kondition_obsolete_single unit) = None
        \<longleftrightarrow> finditer SQL_KONV_RE [] (code_or_empty unit) = []
            \<and> finditer DECL_KONV_RE [] (code_or_empty unit) = [])"
  by (simp add: scan_kondition_obsolete_single_def analyze_unit_def collect_findings_def
      Let_def)

theorem C6_absent_findings_witness:
  "finditer SQL_KONV_RE [] (code_or_empty clean_unit) = []
   \<and> finditer DECL_KONV_RE [] (code_or_empty clean_unit) = []
   \<and> findings clean_unit = Some []
   \<and> findings (scan_kondition_obsolete_single clean_unit) = None
   \<and> scan_kondition_obsolete_single clean_unit = clean_unit\<lparr>findings := None\<rparr>"
proof -
  have "code_or_empty clean_unit = ''WRITE x.''"
    by (simp add: code_or_empty_def clean_unit_def)
  moreover have "findings clean_unit = Some []" by (simp add: clean_unit_def)
  ultimately show ?thesis
    using C6_absent_findings [of clean_unit]
    by (simp add: clean_sql_matches clean_decl_matches clean_findings)
qed

text \<open>
  Claim C9. The scan of a unit is a function of the unit alone (the patterns and the two
  mappings are constants that the source never writes). Scanning the result of a scan
  gives the same findings and the same unit, and the findings a unit already carries have
  no effect on the result.
\<close>

theorem C9_idempotent:
  "analyze_unit (analyze_unit unit) = analyze_unit unit
   \<and> collect_findings (analyze_unit unit) = collect_findings unit
   \<and> analyze_unit (unit\<lparr>findings := fs\<rparr>) = analyze_unit unit"
  by (simp add: analyze_unit_def Let_def)

theorem C9_idempotent_witness:
  "analyze_unit (analyze_unit example_unit) = analyze_unit example_unit
   \<and> findings (analyze_unit (analyze_unit example_unit)) = Some (collect_findings example_unit)
   \<and> analyze_unit (example_unit\<lparr>findings := Some []\<rparr>) = analyze_unit example_unit"
  using C9_idempotent [of example_unit "Some []"]
  by (simp add: findings_analyze_unit example_findings)

text \<open>
  Claim C10. On the store of objects: the scan of the object at address \<open>unit\<close> returns a
  new address; every object of the store before the call, the argument among them, is
  unchanged after it; the new object has the fields of the argument other than
  \<open>findings\<close>, and its \<open>findings\<close> are the freshly computed ones (or \<open>None\<close>), whatever
  findings the argument carried.
\<close>

theorem C10_new_unit:
  assumes "unit < length h" and "analyze_unit_store h unit = (out, h')"
  shows "out = length h \<and> length h' = length h + 1
       \<and> (\<forall>a < length h. h' ! a = h ! a)
       \<and> h' ! out = analyze_unit (h ! unit)
       \<and> pgm_name (h' ! out) = pgm_name (h ! unit)
       \<and> inc_name (h' ! out) = inc_name (h ! unit)
       \<and> type (h' ! out) = type (h ! unit)
       \<and> name (h' ! out) = name (h ! unit)
       \<and> start_line (h' ! out) = start_line (h ! unit)
       \<and> end_line (h' ! out) = end_line (h ! unit)
       \<and> code (h' ! out) = code (h ! unit)
       \<and> findings (h' ! out)
           = (if collect_findings ((h ! unit)\<lparr>findings := None\<rparr>) = [] then None
              else Some (collect_findings ((h ! unit)\<lparr>findings := None\<rparr>)))"
  using assms
  by (auto simp: analyze_unit_store_def alloc_def analyze_unit_def Let_def nth_append)

theorem C10_new_unit_witness:
  "(0::nat) < length [clean_unit]
   \<and> analyze_unit_store [clean_unit] 0 = (1, [clean_unit, clean_unit\<lparr>findings := None\<rparr>])
   \<and> findings ([clean_unit, clean_unit\<lparr>findings := None\<rparr>] ! 0) = Some []
   \<and> findings ([clean_unit, clean_unit\<lparr>findings := None\<rparr>] ! 1) = None
   \<and> code ([clean_unit, clean_unit\<lparr>findings := None\<rparr>] ! 1) = code clean_unit"
proof -
  have 1: "(0::nat) < length [clean_unit]" by simp
  have 2: "analyze_unit_store [clean_unit] 0 = (1, [clean_unit, clean_unit\<lparr>findings := None\<rparr>])"
    by (simp add: analyze_unit_store_def alloc_def clean_findings)
  have 3: "findings clean_unit = Some []" by (simp add: clean_unit_def)
  from C10_new_unit [OF 1 2] 1 2 3 show ?thesis
    by (simp add: clean_findings analyze_unit_def)
qed

end
